theory Spec2Isabelle
  imports Main "HOL-Library.Word"
begin

section \<open>Values, errors and panics of the Go code\<close>

text \<open>
  Keys, values and results travel through the pipeline as \<open>interface{}\<close>. The key
  handlers of keyhandlers.go assert the dynamic type of what they are given
  (\<open>a.(string)\<close>, \<open>a.(int64)\<close>), so the dynamic type is part of the model. A Go string
  and a \<open>[]byte\<close> are both sequences of bytes and are written as \<open>string\<close>.
\<close>

datatype iface = GoString string | GoInt64 "64 word" | GoOther nat

text \<open>
  Errors. \<open>FatalError\<close> and \<open>tryAgainError\<close> are the two wrappers of mapreduce.go;
  the field of \<open>FatalError\<close> is exported and may hold nil. \<open>ErrSyntax\<close> and
  \<open>ErrRange\<close> are the two failures of strconv.ParseInt, \<open>PlainError\<close> is any other
  error value (fmt.Errorf, storage and transport failures, user errors).
\<close>

datatype err =
    PlainError string
  | ErrSyntax string
  | ErrRange string
  | FatalError "err option"
  | tryAgainError err

datatype panic = TypeAssertion | IndexOutOfRange | MakeSliceLen

text \<open>
  The four lines that follow a failed call of user code on lines 162 to 166, 408 to 412,
  446 to 450 and 457 to 461: a FatalError is replaced by the error it wraps (which may be
  nil), any other error is wrapped as tryAgainError.
\<close>

definition fatal_or_tryAgain :: "err \<Rightarrow> err option" where
  "fatal_or_tryAgain e = (case e of FatalError inner \<Rightarrow> inner | _ \<Rightarrow> Some (tryAgainError e))"

section \<open>keyhandlers.go\<close>

subsection \<open>StringKeyHandler\<close>

definition StringKeyHandler_KeyDump :: "iface \<Rightarrow> panic + string" where
  "StringKeyHandler_KeyDump a = (case a of GoString s \<Rightarrow> Inr s | _ \<Rightarrow> Inl TypeAssertion)"

definition StringKeyHandler_KeyLoad :: "string \<Rightarrow> iface option \<times> err option" where
  "StringKeyHandler_KeyLoad a = (Some (GoString a), None)"

subsection \<open>strconv.FormatInt and strconv.ParseInt in base 10\<close>

definition digit_char :: "nat \<Rightarrow> char" where
  "digit_char d = char_of (48 + d)"

fun FormatUint :: "nat \<Rightarrow> string" where
  "FormatUint n = (if n < 10 then [digit_char n] else FormatUint (n div 10) @ [digit_char (n mod 10)])"

declare FormatUint.simps [simp del]

text \<open>
  FormatInt writes a minus sign and the magnitude of a negative number; the magnitude of
  the least int64 is \<open>2 ^ 63\<close>.
\<close>

definition FormatInt :: "64 word \<Rightarrow> string" where
  "FormatInt i = (if sint i < 0 then CHR ''-'' # FormatUint (nat (- sint i))
                  else FormatUint (nat (sint i)))"

text \<open>
  ParseUint reads decimal digits only; any other byte is a syntax error. The magnitude
  is accumulated without a bound here, and the range checks of ParseUint and ParseInt
  (which answer an overflow in ParseUint with the largest uint64, itself out of the
  int64 range) are the two comparisons with \<open>2 ^ 63\<close> in \<open>ParseInt\<close>.
\<close>

fun parse_digits :: "nat \<Rightarrow> string \<Rightarrow> nat option" where
  "parse_digits n [] = Some n"
| "parse_digits n (c # cs) =
     (if 48 \<le> (of_char c :: nat) \<and> (of_char c :: nat) \<le> 57
      then parse_digits (n * 10 + (of_char c - 48)) cs else None)"

definition ParseUint :: "string \<Rightarrow> nat option" where
  "ParseUint s = (if s = [] then None else parse_digits 0 s)"

definition ParseInt :: "string \<Rightarrow> err + 64 word" where
  "ParseInt s0 =
     (if s0 = [] then Inl (ErrSyntax s0)
      else let neg = (hd s0 = CHR ''-'');
               s = (if hd s0 = CHR ''+'' \<or> hd s0 = CHR ''-'' then tl s0 else s0)
           in case ParseUint s of
                None \<Rightarrow> Inl (ErrSyntax s0)
              | Some un \<Rightarrow>
                  if \<not> neg \<and> un \<ge> 2 ^ 63 then Inl (ErrRange s0)
                  else if neg \<and> un > 2 ^ 63 then Inl (ErrRange s0)
                  else Inr (if neg then - of_nat un else of_nat un))"

subsection \<open>Int64KeyHandler\<close>

definition Int64KeyHandler_KeyDump :: "iface \<Rightarrow> panic + string" where
  "Int64KeyHandler_KeyDump a = (case a of GoInt64 i \<Rightarrow> Inr (FormatInt i) | _ \<Rightarrow> Inl TypeAssertion)"

definition Int64KeyHandler_KeyLoad :: "string \<Rightarrow> iface option \<times> err option" where
  "Int64KeyHandler_KeyLoad a =
     (case ParseInt a of Inl e \<Rightarrow> (None, Some e) | Inr i \<Rightarrow> (Some (GoInt64 i), None))"

section \<open>reduce.go: the reduce task engine\<close>

text \<open>
  \<open>MappedData\<close> is the struct of mapreduce.go. An iterator over an intermediate shard is
  the sequence of answers its \<open>Next()\<close> will give: an item, or an error; once the
  sequence is used up, \<open>Next()\<close> reports that nothing exists. A merge item pairs an
  iterator with the item read from it last, as \<open>mappedDataMergeItem\<close> does.
\<close>

record ('k, 'v) MappedData =
  Key :: 'k
  Value :: 'v

type_synonym ('k, 'v) iterator = "(err + ('k, 'v) MappedData) list"

type_synonym ('k, 'v) mappedDataMergeItem = "('k, 'v) iterator \<times> ('k, 'v) MappedData"

text \<open>
  The pipeline and the writer are interfaces implemented by the user. Their methods may
  keep state and may fail, so every method takes the state \<open>'u\<close> of everything outside
  the engine and returns it with its answer; \<open>Equal\<close> is a comparison of two keys. The
  answers follow the Go signatures: \<open>Reduce\<close> returns a result (nil or not) and an
  error (nil or not).
\<close>

record ('k, 'v, 'r, 'u) reducer_pipeline =
  Iterator :: "string \<Rightarrow> 'u \<Rightarrow> (err + ('k, 'v) iterator) \<times> 'u"
  RemoveIntermediate :: "string \<Rightarrow> 'u \<Rightarrow> err option \<times> 'u"
  Equal :: "'k \<Rightarrow> 'k \<Rightarrow> bool"
  Reduce :: "'k \<Rightarrow> 'v list \<Rightarrow> 'u \<Rightarrow> ('r option \<times> err option) \<times> 'u"
  ReduceComplete :: "'u \<Rightarrow> ('r list \<times> err option) \<times> 'u"

record ('r, 'u) SingleOutputWriter =
  Write :: "'r \<Rightarrow> 'u \<Rightarrow> err option \<times> 'u"
  Close :: "'u \<Rightarrow> 'u"

text \<open>
  What the engine does to the outside is recorded, call by call, in a trace: each call
  of Reduce with its arguments and its answer, each call of Write, and so on.
\<close>

datatype ('k, 'v, 'r) reduce_event =
    EvReduce 'k "'v list" "'r option" "err option"
  | EvWrite 'r "err option"
  | EvReduceComplete "'r list" "err option"
  | EvClose
  | EvRemoveIntermediate string
  | EvErrorf err

type_synonym ('k, 'v, 'r, 'u) rworld = "'u \<times> ('k, 'v, 'r) reduce_event list"

text \<open>
  Lines 114 to 128 of ReduceFunc: open every shard and read its first item; a shard with
  no item is skipped, a failure is returned at once.
\<close>

fun open_shards ::
  "('k, 'v, 'r, 'u) reducer_pipeline \<Rightarrow> string list \<Rightarrow> ('k, 'v) mappedDataMergeItem list \<Rightarrow> 'u
    \<Rightarrow> (err + ('k, 'v) mappedDataMergeItem list) \<times> 'u" where
  "open_shards mr [] items u = (Inr items, u)"
| "open_shards mr (shardName # rest) items u =
     (case Iterator mr shardName u of
        (Inl e, u1) \<Rightarrow> (Inl e, u1)
      | (Inr it, u1) \<Rightarrow>
          (case it of
             [] \<Rightarrow> open_shards mr rest items u1
           | Inl e # it' \<Rightarrow> (Inl e, u1)
           | Inr firstItem # it' \<Rightarrow> open_shards mr rest (items @ [(it', firstItem)]) u1))"

text \<open>The two loops over shardNames that call RemoveIntermediate and log a failure.\<close>

fun remove_shards ::
  "('k, 'v, 'r, 'u) reducer_pipeline \<Rightarrow> string list \<Rightarrow> ('k, 'v, 'r, 'u) rworld \<Rightarrow> ('k, 'v, 'r, 'u) rworld" where
  "remove_shards mr [] w = w"
| "remove_shards mr (shardName # rest) (u, tr) =
     (case RemoveIntermediate mr shardName u of
        (None, u1) \<Rightarrow> remove_shards mr rest (u1, tr @ [EvRemoveIntermediate shardName])
      | (Some e, u1) \<Rightarrow> remove_shards mr rest (u1, tr @ [EvRemoveIntermediate shardName, EvErrorf e]))"

text \<open>\<open>else if result != nil { if err := writer.Write(result); err != nil { return err } }\<close>\<close>

definition write_result ::
  "('r, 'u) SingleOutputWriter \<Rightarrow> 'r option \<Rightarrow> ('k, 'v, 'r, 'u) rworld \<Rightarrow> err option \<times> ('k, 'v, 'r, 'u) rworld" where
  "write_result writer result w =
     (case result of
        None \<Rightarrow> (None, w)
      | Some r \<Rightarrow> (case Write writer r (fst w) of (e, u1) \<Rightarrow> (e, (u1, snd w @ [EvWrite r e]))))"

text \<open>
  The loop of lines 150 to 177, over the answers that \<open>merger.next()\<close> still has to
  give. It ends with \<open>Inl\<close> of what ReduceFunc returns when it returns from inside the
  loop, or with \<open>Inr\<close> of the group that is open when the merger has run dry. An error
  of Reduce is unwrapped when it is a FatalError (possibly to nil) and wrapped as
  tryAgainError otherwise; the field read on line 163 is the one field of FatalError.
\<close>

fun grouping_loop ::
  "('k, 'v, 'r, 'u) reducer_pipeline \<Rightarrow> ('r, 'u) SingleOutputWriter \<Rightarrow> 'k \<Rightarrow> 'v list
    \<Rightarrow> (err + ('k, 'v) MappedData) list \<Rightarrow> ('k, 'v, 'r, 'u) rworld
    \<Rightarrow> (err option + 'k \<times> 'v list) \<times> ('k, 'v, 'r, 'u) rworld" where
  "grouping_loop mr writer key values [] w = (Inr (key, values), w)"
| "grouping_loop mr writer key values (Inl e # rest) w = (Inl (Some e), w)"
| "grouping_loop mr writer key values (Inr item # rest) w =
     (if Equal mr key (Key item) then grouping_loop mr writer key (values @ [Value item]) rest w
      else
        (case Reduce mr key values (fst w) of
           ((result, Some e), u1) \<Rightarrow>
             (Inl (fatal_or_tryAgain e),
              (u1, snd w @ [EvReduce key values result (Some e)]))
         | ((result, None), u1) \<Rightarrow>
             (case write_result writer result (u1, snd w @ [EvReduce key values result None]) of
                (Some e, w2) \<Rightarrow> (Inl (Some e), w2)
              | (None, w2) \<Rightarrow> grouping_loop mr writer (Key item) [Value item] rest w2)))"

text \<open>The loop of lines 190 to 194 over the results of ReduceComplete.\<close>

fun write_results ::
  "('r, 'u) SingleOutputWriter \<Rightarrow> 'r list \<Rightarrow> ('k, 'v, 'r, 'u) rworld \<Rightarrow> err option \<times> ('k, 'v, 'r, 'u) rworld" where
  "write_results writer [] w = (None, w)"
| "write_results writer (r # rs) w =
     (case write_result writer (Some r) w of
        (Some e, w1) \<Rightarrow> (Some e, w1)
      | (None, w1) \<Rightarrow> write_results writer rs w1)"

text \<open>
  Lines 179 to 205: Reduce on the last group, ReduceComplete, closing the writer and
  removing the shards. Here an error of Reduce or of ReduceComplete is returned as it is.
\<close>

definition finish_reduce ::
  "('k, 'v, 'r, 'u) reducer_pipeline \<Rightarrow> ('r, 'u) SingleOutputWriter \<Rightarrow> string list \<Rightarrow> 'k \<Rightarrow> 'v list
    \<Rightarrow> ('k, 'v, 'r, 'u) rworld \<Rightarrow> err option \<times> ('k, 'v, 'r, 'u) rworld" where
  "finish_reduce mr writer shardNames key values w =
     (case Reduce mr key values (fst w) of
        ((result, Some e), u1) \<Rightarrow> (Some e, (u1, snd w @ [EvReduce key values result (Some e)]))
      | ((result, None), u1) \<Rightarrow>
          (case write_result writer result (u1, snd w @ [EvReduce key values result None]) of
             (Some e, w2) \<Rightarrow> (Some e, w2)
           | (None, w2) \<Rightarrow>
               (case ReduceComplete mr (fst w2) of
                  ((results, Some e), u3) \<Rightarrow> (Some e, (u3, snd w2 @ [EvReduceComplete results (Some e)]))
                | ((results, None), u3) \<Rightarrow>
                    (case write_results writer results (u3, snd w2 @ [EvReduceComplete results None]) of
                       (Some e, w4) \<Rightarrow> (Some e, w4)
                     | (None, w4) \<Rightarrow>
                         (None, remove_shards mr shardNames (Close writer (fst w4), snd w4 @ [EvClose]))))))"

text \<open>
  ReduceFunc. The type mappedDataMerger and its method \<open>next()\<close> are not in these files;
  the merger is the parameter \<open>merger_next\<close>, which gives, for the merge items the
  engine has built, the answer of the first call of \<open>next()\<close> and the answers of the
  calls after it, for as long as \<open>len(merger.items) > 0\<close>. The result is the error
  returned (None for nil), the state of the outside and the trace.
\<close>

definition ReduceFunc ::
  "('k, 'v, 'r, 'u) reducer_pipeline
    \<Rightarrow> (('k, 'v) mappedDataMergeItem list \<Rightarrow> (err + ('k, 'v) MappedData) \<times> (err + ('k, 'v) MappedData) list)
    \<Rightarrow> ('r, 'u) SingleOutputWriter \<Rightarrow> string list \<Rightarrow> 'u
    \<Rightarrow> err option \<times> ('k, 'v, 'r, 'u) rworld" where
  "ReduceFunc mr merger_next writer shardNames u0 =
     (case open_shards mr shardNames [] u0 of
        (Inl e, u1) \<Rightarrow> (Some e, (u1, []))
      | (Inr items, u1) \<Rightarrow>
          if length items = 0 then (None, remove_shards mr shardNames (u1, []))
          else
            (case merger_next items of
               (Inl e, rest) \<Rightarrow> (Some e, (u1, []))
             | (Inr first, rest) \<Rightarrow>
                 (case grouping_loop mr writer (Key first) [Value first] rest (u1, []) of
                    (Inl e, w) \<Rightarrow> (e, w)
                  | (Inr (key, values), w) \<Rightarrow> finish_reduce mr writer shardNames key values w)))"

subsection \<open>Reading a trace\<close>

text \<open>
  The calls of Reduce with their arguments, the non-nil results that Reduce returned
  without an error, the calls of ReduceComplete, the results of a ReduceComplete that
  succeeded, the values handed to Write, and the shards handed to RemoveIntermediate,
  each in the order of the trace.
\<close>

definition reduce_calls :: "('k, 'v, 'r) reduce_event list \<Rightarrow> ('k \<times> 'v list) list" where
  "reduce_calls tr = concat (map (\<lambda>ev. case ev of EvReduce k vs r e \<Rightarrow> [(k, vs)] | _ \<Rightarrow> []) tr)"

definition reduce_results :: "('k, 'v, 'r) reduce_event list \<Rightarrow> 'r list" where
  "reduce_results tr = concat (map (\<lambda>ev. case ev of EvReduce k vs (Some r) None \<Rightarrow> [r] | _ \<Rightarrow> []) tr)"

definition complete_calls :: "('k, 'v, 'r) reduce_event list \<Rightarrow> 'r list list" where
  "complete_calls tr = concat (map (\<lambda>ev. case ev of EvReduceComplete rs e \<Rightarrow> [rs] | _ \<Rightarrow> []) tr)"

definition complete_results :: "('k, 'v, 'r) reduce_event list \<Rightarrow> 'r list" where
  "complete_results tr = concat (map (\<lambda>ev. case ev of EvReduceComplete rs None \<Rightarrow> rs | _ \<Rightarrow> []) tr)"

definition written :: "('k, 'v, 'r) reduce_event list \<Rightarrow> 'r list" where
  "written tr = concat (map (\<lambda>ev. case ev of EvWrite r e \<Rightarrow> [r] | _ \<Rightarrow> []) tr)"

definition removed :: "('k, 'v, 'r) reduce_event list \<Rightarrow> string list" where
  "removed tr = concat (map (\<lambda>ev. case ev of EvRemoveIntermediate n \<Rightarrow> [n] | _ \<Rightarrow> []) tr)"

subsection \<open>Streams whose equal keys are adjacent\<close>



subsection \<open>Pipelines to run the engine on\<close>

text \<open>
  A pipeline over one shard of natural numbers, with no state outside: every shard name
  opens the same iterator, Reduce and ReduceComplete answer as given, removing a shard
  and writing succeed. A merger over a single shard hands the shard's items on in their
  order.
\<close>

definition pipeline_of ::
  "(nat, nat) iterator \<Rightarrow> (nat \<Rightarrow> nat list \<Rightarrow> nat option \<times> err option) \<Rightarrow> nat list \<times> err option
    \<Rightarrow> (nat, nat, nat, unit) reducer_pipeline" where
  "pipeline_of shard reduce complete =
     \<lparr>Iterator = (\<lambda>name u. (Inr shard, u)),
      RemoveIntermediate = (\<lambda>name u. (None, u)),
      Equal = (\<lambda>a b. a = b),
      Reduce = (\<lambda>key values u. (reduce key values, u)),
      ReduceComplete = (\<lambda>u. (complete, u))\<rparr>"

definition example_shard :: "(nat, nat) iterator" where
  "example_shard = [Inr \<lparr>Key = 1, Value = 10\<rparr>, Inr \<lparr>Key = 1, Value = 11\<rparr>, Inr \<lparr>Key = 2, Value = 20\<rparr>]"


definition example_writer :: "(nat, unit) SingleOutputWriter" where
  "example_writer = \<lparr>Write = (\<lambda>r u. (None, u)), Close = (\<lambda>u. u)\<rparr>"

definition single_shard_merger ::
  "('k, 'v) mappedDataMergeItem list \<Rightarrow> (err + ('k, 'v) MappedData) \<times> (err + ('k, 'v) MappedData) list" where
  "single_shard_merger items = (Inr (snd (hd items)), fst (hd items))"

section \<open>map.go: the map task engine\<close>

text \<open>
  The methods of the pipeline that mapperFunc calls. \<open>Map\<close> and \<open>MapComplete\<close> may
  keep state and fail; \<open>Shard\<close> and \<open>ValueDump\<close> are functions of their arguments
  (the error of ValueDump is dropped by mapperFunc). \<open>writeSpill\<close> and \<open>mergeSpills\<close>
  are functions of the package that are not in these files: they are parameters of
  mapperFunc here, with a spill of any type \<open>'sp\<close>.
\<close>

record ('i, 'k, 'v, 'u) mapper_pipeline =
  Map :: "'i \<Rightarrow> 'u \<Rightarrow> (('k, 'v) MappedData list \<times> err option) \<times> 'u"
  MapComplete :: "'u \<Rightarrow> (('k, 'v) MappedData list \<times> err option) \<times> 'u"
  Shard :: "'k \<Rightarrow> int \<Rightarrow> int"
  ValueDump :: "'v \<Rightarrow> string"

datatype ('i, 'k, 'v) map_event =
    EvMap 'i
  | EvMapComplete
  | EvWriteSpill "('k, 'v) MappedData list list"
  | EvMergeSpills nat
  | EvReaderClose
  | EvInfof

type_synonym ('i, 'k, 'v, 'u) mworld = "'u \<times> ('i, 'k, 'v) map_event list"

text \<open>
  The variables of mapperFunc that the read loop changes: the buffers, one for each
  partition, the spills written so far, the accumulated byte size \<open>size\<close> and the
  number of items \<open>count\<close>. What mapperFunc returns is a map of names (nil or not)
  and an error (nil or not).
\<close>

record ('k, 'v, 'sp) mapper_vars =
  dataSets :: "('k, 'v) MappedData list list"
  spills :: "'sp list"
  size_acc :: nat
  count :: nat

type_synonym mapper_result = "(string \<Rightarrow> nat option) option \<times> err option"

text \<open>
  Lines 417 to 424: every mapped item goes to the buffer of its partition, and the length
  of its dumped value is added to \<open>size\<close>. An index outside the buffers panics.
\<close>

fun add_items ::
  "('i, 'k, 'v, 'u) mapper_pipeline \<Rightarrow> int \<Rightarrow> ('k, 'v) MappedData list \<Rightarrow> ('k, 'v, 'sp) mapper_vars
    \<Rightarrow> panic + ('k, 'v, 'sp) mapper_vars" where
  "add_items mr shardCount [] st = Inr st"
| "add_items mr shardCount (mappedItem # rest) st =
     (let shard = Shard mr (Key mappedItem) shardCount in
      if shard < 0 \<or> int (length (dataSets st)) \<le> shard then Inl IndexOutOfRange
      else add_items mr shardCount rest
             (st\<lparr>dataSets := (dataSets st)[nat shard := dataSets st ! nat shard @ [mappedItem]],
                 size_acc := size_acc st + length (ValueDump mr (Value mappedItem)),
                 count := count st + 1\<rparr>))"

text \<open>Lines 466 to 469: the items of MapComplete go to their buffers; no size is added.\<close>

fun add_complete_items ::
  "('i, 'k, 'v, 'u) mapper_pipeline \<Rightarrow> int \<Rightarrow> ('k, 'v) MappedData list \<Rightarrow> ('k, 'v, 'sp) mapper_vars
    \<Rightarrow> panic + ('k, 'v, 'sp) mapper_vars" where
  "add_complete_items mr shardCount [] st = Inr st"
| "add_complete_items mr shardCount (item # rest) st =
     (let shard = Shard mr (Key item) shardCount in
      if shard < 0 \<or> int (length (dataSets st)) \<le> shard then Inl IndexOutOfRange
      else add_complete_items mr shardCount rest
             (st\<lparr>dataSets := (dataSets st)[nat shard := dataSets st ! nat shard @ [item]]\<rparr>))"

text \<open>
  Lines 426 to 440: when \<open>size\<close> is above \<open>4*1024*1024\<close> the buffers are written as a
  spill; a failure is returned as tryAgainError, otherwise the spill is kept, \<open>size\<close>
  and \<open>count\<close> are set to 0 and every buffer is cut to length 0.
\<close>

definition spill_if_full ::
  "(('k, 'v) MappedData list list \<Rightarrow> 'u \<Rightarrow> (err + 'sp) \<times> 'u) \<Rightarrow> ('k, 'v, 'sp) mapper_vars
    \<Rightarrow> ('i, 'k, 'v, 'u) mworld \<Rightarrow> (mapper_result + ('k, 'v, 'sp) mapper_vars) \<times> ('i, 'k, 'v, 'u) mworld" where
  "spill_if_full writeSpill st w =
     (if size_acc st > 4 * 1024 * 1024 then
        (case writeSpill (dataSets st) (fst w) of
           (Inl e, u1) \<Rightarrow> (Inl (None, Some (tryAgainError e)), (u1, snd w @ [EvWriteSpill (dataSets st)]))
         | (Inr spill, u1) \<Rightarrow>
             (Inr (st\<lparr>spills := spills st @ [spill], size_acc := 0, count := 0,
                      dataSets := map (\<lambda>d. []) (dataSets st)\<rparr>),
              (u1, snd w @ [EvWriteSpill (dataSets st), EvInfof])))
      else (Inr st, w))"

text \<open>
  The body of the read loop, lines 405 to 440, for one item of the reader: Map, the
  mapped items, the check of \<open>size\<close>. It panics, returns from mapperFunc (\<open>Inr (Inl r)\<close>),
  or goes on with new values of the variables.
\<close>

definition read_item ::
  "('i, 'k, 'v, 'u) mapper_pipeline \<Rightarrow> (('k, 'v) MappedData list list \<Rightarrow> 'u \<Rightarrow> (err + 'sp) \<times> 'u)
    \<Rightarrow> int \<Rightarrow> 'i \<Rightarrow> ('k, 'v, 'sp) mapper_vars \<Rightarrow> ('i, 'k, 'v, 'u) mworld
    \<Rightarrow> (panic + mapper_result + ('k, 'v, 'sp) mapper_vars) \<times> ('i, 'k, 'v, 'u) mworld" where
  "read_item mr writeSpill shardCount item st w =
     (case Map mr item (fst w) of
        ((itemList, Some e), u1) \<Rightarrow> (Inr (Inl (None, fatal_or_tryAgain e)), (u1, snd w @ [EvMap item]))
      | ((itemList, None), u1) \<Rightarrow>
          (case add_items mr shardCount itemList st of
             Inl p \<Rightarrow> (Inl p, (u1, snd w @ [EvMap item]))
           | Inr st1 \<Rightarrow>
               (case spill_if_full writeSpill st1 (u1, snd w @ [EvMap item]) of
                  (r, w2) \<Rightarrow> (Inr r, w2))))"

text \<open>
  The read loop, line 404. The reader is the sequence of answers of \<open>reader.Next()\<close>,
  an item (nil or not) and an error (nil or not); a reader whose answers are used up
  answers nil and nil. The loop goes on while the item is not nil and the error is nil,
  and leaves the error of the answer that ended it in \<open>err\<close>.
\<close>

fun read_loop ::
  "('i, 'k, 'v, 'u) mapper_pipeline \<Rightarrow> (('k, 'v) MappedData list list \<Rightarrow> 'u \<Rightarrow> (err + 'sp) \<times> 'u)
    \<Rightarrow> int \<Rightarrow> ('i option \<times> err option) list \<Rightarrow> ('k, 'v, 'sp) mapper_vars \<Rightarrow> ('i, 'k, 'v, 'u) mworld
    \<Rightarrow> (panic + mapper_result + ('k, 'v, 'sp) mapper_vars \<times> err option) \<times> ('i, 'k, 'v, 'u) mworld" where
  "read_loop mr writeSpill shardCount [] st w = (Inr (Inr (st, None)), w)"
| "read_loop mr writeSpill shardCount ((Some item, None) # reader) st w =
     (case read_item mr writeSpill shardCount item st w of
        (Inl p, w1) \<Rightarrow> (Inl p, w1)
      | (Inr (Inl r), w1) \<Rightarrow> (Inr (Inl r), w1)
      | (Inr (Inr st1), w1) \<Rightarrow> read_loop mr writeSpill shardCount reader st1 w1)"
| "read_loop mr writeSpill shardCount ((item, err) # reader) st w = (Inr (Inr (st, err)), w)"

text \<open>
  Lines 477 to 487: up to five calls of mergeSpills, \<open>try\<close> counting from 0. The first
  call that succeeds fills \<open>finalNames\<close> with the names it returns, each with its index
  as partition, and ends the loop. The error of a call that fails is a variable of the
  \<open>if\<close> statement alone: it is logged and nothing of it is kept.
\<close>

function merge_tries ::
  "('sp list \<Rightarrow> 'u \<Rightarrow> (err + string list) \<times> 'u) \<Rightarrow> 'sp list \<Rightarrow> nat \<Rightarrow> (string \<Rightarrow> nat option)
    \<Rightarrow> ('i, 'k, 'v, 'u) mworld \<Rightarrow> (string \<Rightarrow> nat option) \<times> ('i, 'k, 'v, 'u) mworld" where
  "merge_tries mergeSpills sps try finalNames w =
     (if try < 5 then
        (case mergeSpills sps (fst w) of
           (Inl e, u1) \<Rightarrow>
             merge_tries mergeSpills sps (try + 1) finalNames (u1, snd w @ [EvMergeSpills try, EvInfof])
         | (Inr names, u1) \<Rightarrow>
             (fold (\<lambda>(shard, name) m. m(name \<mapsto> shard)) (enumerate 0 names) finalNames,
              (u1, snd w @ [EvMergeSpills try])))
      else (finalNames, w))"
  by pat_completeness auto
termination
  by (relation "measure (\<lambda>(mergeSpills, sps, try, finalNames, w). 5 - try)") auto

declare merge_tries.simps [simp del]

text \<open>
  Lines 443 to 495, after the read loop. \<open>err\<close> is the one variable declared on line
  400: the read loop leaves the reader's error in it, line 455 assigns it the error of
  MapComplete, and line 489 reads it again after the merge loop. The errors of writeSpill
  and mergeSpills on lines 471 and 479 are variables of their own \<open>if\<close> statements.
\<close>

definition after_read ::
  "('i, 'k, 'v, 'u) mapper_pipeline \<Rightarrow> (('k, 'v) MappedData list list \<Rightarrow> 'u \<Rightarrow> (err + 'sp) \<times> 'u)
    \<Rightarrow> ('sp list \<Rightarrow> 'u \<Rightarrow> (err + string list) \<times> 'u) \<Rightarrow> int
    \<Rightarrow> ('k, 'v, 'sp) mapper_vars \<Rightarrow> err option \<Rightarrow> ('i, 'k, 'v, 'u) mworld
    \<Rightarrow> (panic + mapper_result) \<times> ('i, 'k, 'v, 'u) mworld" where
  "after_read mr writeSpill mergeSpills shardCount st err0 w =
     (if err0 \<noteq> None then (Inr (None, fatal_or_tryAgain (the err0)), w)
      else
        (case MapComplete mr (fst w) of
           ((itemList, err), u1) \<Rightarrow>
             if err \<noteq> None then (Inr (None, fatal_or_tryAgain (the err)), (u1, snd w @ [EvMapComplete]))
             else
               (case add_complete_items mr shardCount itemList st of
                  Inl p \<Rightarrow> (Inl p, (u1, snd w @ [EvMapComplete]))
                | Inr st1 \<Rightarrow>
                    (case writeSpill (dataSets st1) u1 of
                       (Inl e, u2) \<Rightarrow>
                         (Inr (None, Some (tryAgainError e)),
                          (u2, snd w @ [EvMapComplete, EvWriteSpill (dataSets st1)]))
                     | (Inr spill, u2) \<Rightarrow>
                         (case merge_tries mergeSpills (spills st1 @ [spill]) 0 (\<lambda>name. None)
                                 (u2, snd w @ [EvMapComplete, EvWriteSpill (dataSets st1)]) of
                            (finalNames, w3) \<Rightarrow>
                              if err \<noteq> None then (Inr (None, Some (tryAgainError (the err))), w3)
                              else (Inr (Some finalNames, None), (fst w3, snd w3 @ [EvInfof])))))))"

text \<open>
  mapperFunc. \<open>make([]mappedDataList, shardCount)\<close> panics on a negative length.
\<close>

definition mapperFunc ::
  "('i, 'k, 'v, 'u) mapper_pipeline \<Rightarrow> (('k, 'v) MappedData list list \<Rightarrow> 'u \<Rightarrow> (err + 'sp) \<times> 'u)
    \<Rightarrow> ('sp list \<Rightarrow> 'u \<Rightarrow> (err + string list) \<times> 'u)
    \<Rightarrow> ('i option \<times> err option) list \<Rightarrow> int \<Rightarrow> 'u
    \<Rightarrow> (panic + mapper_result) \<times> ('i, 'k, 'v, 'u) mworld" where
  "mapperFunc mr writeSpill mergeSpills reader shardCount u0 =
     (if shardCount < 0 then (Inl MakeSliceLen, (u0, []))
      else
        (case read_loop mr writeSpill shardCount reader
                \<lparr>dataSets = replicate (nat shardCount) [], spills = [], size_acc = 0, count = 0\<rparr> (u0, []) of
           (Inl p, w) \<Rightarrow> (Inl p, w)
         | (Inr (Inl r), w) \<Rightarrow> (Inr r, w)
         | (Inr (Inr (st, err)), w) \<Rightarrow>
             after_read mr writeSpill mergeSpills shardCount st err (fst w, snd w @ [EvReaderClose])))"

subsection \<open>Reading a trace of the map task engine\<close>

definition spill_calls :: "('i, 'k, 'v) map_event list \<Rightarrow> ('k, 'v) MappedData list list list" where
  "spill_calls tr = concat (map (\<lambda>ev. case ev of EvWriteSpill ds \<Rightarrow> [ds] | _ \<Rightarrow> []) tr)"

definition merge_calls :: "('i, 'k, 'v) map_event list \<Rightarrow> nat list" where
  "merge_calls tr = concat (map (\<lambda>ev. case ev of EvMergeSpills try \<Rightarrow> [try] | _ \<Rightarrow> []) tr)"

subsection \<open>A map pipeline to run the engine on\<close>

text \<open>
  Items, keys and values are natural numbers: every item is mapped to one pair of the
  item with itself, and a value is dumped as that many bytes; the partition of a key is
  its remainder; a spill is the list of the buffers written.
\<close>

definition example_mapper :: "(nat, nat, nat, unit) mapper_pipeline" where
  "example_mapper =
     \<lparr>Map = (\<lambda>item u. (([\<lparr>Key = item, Value = item\<rparr>], None), u)),
      MapComplete = (\<lambda>u. (([], None), u)),
      Shard = (\<lambda>key shardCount. int key mod shardCount),
      ValueDump = (\<lambda>v. replicate v (CHR ''x''))\<rparr>"

definition example_writeSpill ::
  "(nat, nat) MappedData list list \<Rightarrow> unit \<Rightarrow> (err + (nat, nat) MappedData list list) \<times> unit" where
  "example_writeSpill ds u = (Inr ds, u)"

definition failing_mergeSpills :: "'sp list \<Rightarrow> unit \<Rightarrow> (err + string list) \<times> unit" where
  "failing_mergeSpills sps u = (Inl (PlainError ''merge failed''), u)"

section \<open>Jobs, tasks and what the controller calls\<close>

text \<open>
  The task and job records, with the fields that the code of these files reads or
  writes (their declarations are in another file of the package). A field of a job that
  has the name of a field of a task carries the suffix \<open>_job\<close>.
\<close>

datatype TaskStatus = TaskStatusPending | TaskStatusRunning | TaskStatusDone | TaskStatusFailed

datatype TaskType = TaskTypeMap | TaskTypeReduce

datatype JobStage = StageMapping | StageReducing | StageDone | StageFailed

record JobTask =
  Status :: TaskStatus
  Url :: string
  ReadFrom :: string
  SeparateReduceItems :: bool
  Type :: TaskType
  Info :: string
  Result :: string

record JobInfo =
  Stage :: JobStage
  UrlPrefix :: string
  WriterNames :: "string list"
  SeparateReduceItems_job :: bool
  JsonParameters :: string

text \<open>
  Everything the controller calls outside these files answers as a function of its
  arguments: the readers and writers of the job, the datastore (createJob, AllocateIDs,
  createTasks, waitForStageCompletion, gatherTasks), the task queue (PostTask,
  PostStatus), and the library (the encoding of a key, url.QueryEscape, json.Unmarshal
  into a \<open>map[string]int\<close>, json.Marshal of a list of names, zlib). A decoded
  \<open>map[string]int\<close> is the list of its entries in the order in which the \<open>range\<close>
  loop visits them. Task keys are the task ids.
\<close>

record controller_env =
  ReaderNames :: "string list \<times> err option"
  WriterNames_of :: "string list \<times> err option"
  createJob :: "err + int"
  AllocateIDs :: "nat \<Rightarrow> err + int"
  Encode :: "int \<Rightarrow> string"
  createTasks :: "JobTask list \<Rightarrow> err option"
  PostTask :: "string \<Rightarrow> err option"
  PostStatus :: "string \<Rightarrow> err option"
  waitForStageCompletion :: "err + JobInfo"
  gatherTasks :: "err + JobTask list"
  json_Unmarshal :: "string \<Rightarrow> err + (string \<times> int) list"
  json_Marshal :: "string list \<Rightarrow> string"
  zlib_compress :: "string \<Rightarrow> string"
  QueryEscape :: "string \<Rightarrow> string"

datatype ctl_event =
    EvCreateJob
  | EvCreateTasks "JobTask list"
  | EvPostTask string
  | EvPostStatus string
  | EvJobFailed string
  | EvMarkJobFailed
  | EvLog

text \<open>
  Modelled from the spec: makeTaskKeys is not in these files. The spec has the ids of the
  tasks of a stage form a contiguous window that AllocateIDs opens, so the keys are the
  ids \<open>firstId\<close>, \<open>firstId + 1\<close>, and so on.
\<close>

definition makeTaskKeys :: "int \<Rightarrow> nat \<Rightarrow> int list" where
  "makeTaskKeys firstId n = map (\<lambda>i. firstId + int i) [0..<n]"

text \<open>The text of an error, as \<open>%s\<close> prints it.\<close>

fun Error :: "err \<Rightarrow> string" where
  "Error (PlainError s) = s"
| "Error (ErrSyntax s) = ''strconv.ParseInt: parsing '' @ s @ '': invalid syntax''"
| "Error (ErrRange s) = ''strconv.ParseInt: parsing '' @ s @ '': value out of range''"
| "Error (FatalError None) = ''''"
| "Error (FatalError (Some e)) = Error e"
| "Error (tryAgainError e) = Error e"

section \<open>map.go: the map monitor\<close>

text \<open>
  Lines 266 to 277: the names of one map task's result go to the lists of their
  partitions; a partition outside \<open>storageNames\<close> panics.
\<close>

fun add_names :: "(string \<times> int) list \<Rightarrow> string list list \<Rightarrow> panic + string list list" where
  "add_names [] storageNames = Inr storageNames"
| "add_names ((name, shard) # rest) storageNames =
     (if shard < 0 \<or> int (length storageNames) \<le> shard then Inl IndexOutOfRange
      else add_names rest (storageNames[nat shard := storageNames ! nat shard @ [name]]))"

fun collect_names ::
  "controller_env \<Rightarrow> JobTask list \<Rightarrow> string list list \<Rightarrow> panic + err + string list list" where
  "collect_names env [] storageNames = Inr (Inr storageNames)"
| "collect_names env (mapTask # rest) storageNames =
     (case json_Unmarshal env (Result mapTask) of
        Inl e \<Rightarrow> Inr (Inl e)
      | Inr shardNames \<Rightarrow>
          (case add_names shardNames storageNames of
             Inl p \<Rightarrow> Inl p
           | Inr storageNames' \<Rightarrow> collect_names env rest storageNames'))"

text \<open>
  Lines 287 to 308: a reduce task for every partition with a name. The key of a task is
  the one at the position of the task among the tasks made so far. The fields that the
  literal on lines 300 to 306 leaves out have their zero values.
\<close>

definition reduce_task :: "controller_env \<Rightarrow> JobInfo \<Rightarrow> int \<Rightarrow> nat \<Rightarrow> string list \<Rightarrow> JobTask" where
  "reduce_task env job taskKey shard shards =
     \<lparr>Status = TaskStatusPending,
      Url = UrlPrefix job @ ''/reduce?taskKey='' @ Encode env taskKey
            @ '';shard='' @ FormatUint shard
            @ '';writer='' @ QueryEscape env (WriterNames job ! shard),
      ReadFrom = zlib_compress env (json_Marshal env shards),
      SeparateReduceItems = SeparateReduceItems_job job,
      Type = TaskTypeReduce,
      Info = [],
      Result = []\<rparr>"

fun reduce_tasks ::
  "controller_env \<Rightarrow> JobInfo \<Rightarrow> int list \<Rightarrow> string list list \<Rightarrow> nat list \<Rightarrow> JobTask list \<Rightarrow> JobTask list" where
  "reduce_tasks env job taskKeys storageNames [] tasks = tasks"
| "reduce_tasks env job taskKeys storageNames (shard # rest) tasks =
     (let shards = storageNames ! shard in
      if length shards > 0 then
        reduce_tasks env job taskKeys storageNames rest
          (tasks @ [reduce_task env job (taskKeys ! length tasks) shard shards])
      else reduce_tasks env job taskKeys storageNames rest tasks)"

text \<open>Lines 317 to 322: the tasks are posted until a post fails.\<close>

fun post_tasks :: "controller_env \<Rightarrow> string \<Rightarrow> JobTask list \<Rightarrow> ctl_event list \<Rightarrow> err option \<times> ctl_event list" where
  "post_tasks env params [] tr = (None, tr)"
| "post_tasks env params (task # rest) tr =
     (case PostTask env (Url task) of
        Some e \<Rightarrow> (Some e, tr @ [EvPostTask (Url task)])
      | None \<Rightarrow> post_tasks env params rest (tr @ [EvPostTask (Url task)]))"

text \<open>
  mapMonitorTask, for the job with the encoded key \<open>jobKey\<close>: what it logs, creates and
  posts, or the panic it ends in.
\<close>

definition mapMonitorTask :: "controller_env \<Rightarrow> string \<Rightarrow> panic + ctl_event list" where
  "mapMonitorTask env jobKey =
     (case waitForStageCompletion env of
        Inl e \<Rightarrow> Inr [EvLog]
      | Inr job \<Rightarrow>
          if Stage job = StageMapping then
            (case PostStatus env (UrlPrefix job @ ''/map-monitor?jobKey='' @ jobKey) of
               Some e \<Rightarrow> Inr [EvLog, EvPostStatus (UrlPrefix job @ ''/map-monitor?jobKey='' @ jobKey), EvLog]
             | None \<Rightarrow> Inr [EvLog, EvPostStatus (UrlPrefix job @ ''/map-monitor?jobKey='' @ jobKey)])
          else
            (case gatherTasks env of
               Inl e \<Rightarrow> Inr [EvLog, EvLog, EvJobFailed (''error loading tasks after map complete: '' @ Error e)]
             | Inr mapTasks \<Rightarrow>
                 (case collect_names env mapTasks (replicate (length (WriterNames job)) []) of
                    Inl p \<Rightarrow> Inl p
                  | Inr (Inl e) \<Rightarrow>
                      Inr [EvLog, EvLog, EvJobFailed (''cannot unmarshal map shard names: '' @ Error e)]
                  | Inr (Inr storageNames) \<Rightarrow>
                      (case AllocateIDs env (length (WriterNames job)) of
                         Inl e \<Rightarrow>
                           Inr [EvLog, EvJobFailed (''failed to allocate ids for reduce tasks: '' @ Error e)]
                       | Inr firstId \<Rightarrow>
                           (let taskKeys = makeTaskKeys firstId (length (WriterNames job));
                                tasks = reduce_tasks env job taskKeys storageNames
                                          [0..<length (WriterNames job)] []
                            in case createTasks env tasks of
                                 Some e \<Rightarrow>
                                   Inr [EvLog, EvCreateTasks tasks,
                                        EvJobFailed (''failed to create reduce tasks: '' @ Error e)]
                               | None \<Rightarrow>
                                   (case post_tasks env (JsonParameters job) tasks [EvLog, EvCreateTasks tasks] of
                                      (Some e, tr) \<Rightarrow>
                                        Inr (tr @ [EvJobFailed (''failed to post reduce task: '' @ Error e)])
                                    | (None, tr) \<Rightarrow>
                                        (case PostStatus env (UrlPrefix job @ ''/reduce-monitor?jobKey='' @ jobKey) of
                                           Some e \<Rightarrow>
                                             Inr (tr @ [EvPostStatus (UrlPrefix job @ ''/reduce-monitor?jobKey='' @ jobKey),
                                                        EvJobFailed (''failed to start reduce monitor: '' @ Error e)])
                                         | None \<Rightarrow>
                                             Inr (tr @ [EvPostStatus (UrlPrefix job @ ''/reduce-monitor?jobKey='' @ jobKey),
                                                        EvLog]))))))))"

definition create_calls :: "ctl_event list \<Rightarrow> JobTask list list" where
  "create_calls tr = concat (map (\<lambda>ev. case ev of EvCreateTasks tasks \<Rightarrow> [tasks] | _ \<Rightarrow> []) tr)"

text \<open>
  The names that the results of the map tasks advertise for a partition: for every map
  task in turn, the names of its result that have the partition, in the order of the
  result.
\<close>

definition advertised :: "(string \<times> int) list list \<Rightarrow> nat \<Rightarrow> string list" where
  "advertised results p = concat (map (\<lambda>entries. map fst (filter (\<lambda>entry. snd entry = int p) entries)) results)"

section \<open>mapreduce.go: Run\<close>

text \<open>
  The fields of MapReduceJob that Run reads, other than the pipeline; a field with the
  name of a field above carries the suffix \<open>_run\<close>.
\<close>

record MapReduceJob =
  UrlPrefix_run :: string
  OnCompleteUrl :: string
  RetryCount :: int
  SeparateReduceItems_run :: bool
  JobParameters :: string

text \<open>Lines 742 to 752: the map task of the reader at position \<open>i\<close>.\<close>

definition map_task :: "controller_env \<Rightarrow> MapReduceJob \<Rightarrow> int list \<Rightarrow> nat \<Rightarrow> nat \<Rightarrow> string \<Rightarrow> JobTask" where
  "map_task env job taskKeys reducerCount i readerName =
     \<lparr>Status = TaskStatusPending,
      Url = UrlPrefix_run job @ ''/map?taskKey='' @ Encode env (taskKeys ! i)
            @ '';reader='' @ readerName @ '';shards='' @ FormatUint reducerCount,
      ReadFrom = [],
      SeparateReduceItems = False,
      Type = TaskTypeMap,
      Info = '''',
      Result = ''''\<rparr>"

text \<open>
  Run returns the id of the job and an error (nil or not); the trace is what it created
  and posted on the way.
\<close>

definition Run :: "controller_env \<Rightarrow> MapReduceJob \<Rightarrow> (int \<times> err option) \<times> ctl_event list" where
  "Run env job =
     (case ReaderNames env of
        (readerNames, Some e) \<Rightarrow> ((0, Some (PlainError (''forming reader names: '' @ Error e))), [])
      | (readerNames, None) \<Rightarrow>
          if length readerNames = 0 then ((0, Some (PlainError ''no input readers'')), [])
          else
            (case WriterNames_of env of
               (writerNames, Some e) \<Rightarrow> ((0, Some (PlainError (''forming writer names: '' @ Error e))), [])
             | (writerNames, None) \<Rightarrow>
                 if length writerNames = 0 then ((0, Some (PlainError ''no output writers'')), [])
                 else
                   (let reducerCount = length writerNames in
                    case createJob env of
                      Inl e \<Rightarrow> ((0, Some (PlainError (''creating job: '' @ Error e))), [EvCreateJob])
                    | Inr jobKey \<Rightarrow>
                        (case AllocateIDs env (length readerNames) of
                           Inl e \<Rightarrow> ((0, Some (PlainError (''allocating task ids: '' @ Error e))), [EvCreateJob])
                         | Inr firstId \<Rightarrow>
                             (let taskKeys = makeTaskKeys firstId (length readerNames);
                                  tasks = map (\<lambda>(i, readerName). map_task env job taskKeys reducerCount i readerName)
                                            (enumerate 0 readerNames)
                              in case createTasks env tasks of
                                   Some e \<Rightarrow>
                                     ((0, Some (PlainError (''creating tasks: '' @ Error e))),
                                      [EvCreateJob, EvCreateTasks tasks, EvMarkJobFailed, EvLog])
                                 | None \<Rightarrow>
                                     (case post_tasks env (JobParameters job) tasks [EvCreateJob, EvCreateTasks tasks] of
                                        (Some e, tr) \<Rightarrow>
                                          ((0, Some (PlainError (''posting task: '' @ Error e))),
                                           tr @ [EvMarkJobFailed, EvLog])
                                      | (None, tr) \<Rightarrow>
                                          (case PostStatus env (UrlPrefix_run job @ ''/map-monitor?jobKey='' @ Encode env jobKey) of
                                             Some e \<Rightarrow>
                                               ((jobKey, None),
                                                tr @ [EvPostStatus (UrlPrefix_run job @ ''/map-monitor?jobKey='' @ Encode env jobKey), EvLog])
                                           | None \<Rightarrow>
                                               ((jobKey, None),
                                                tr @ [EvPostStatus (UrlPrefix_run job @ ''/map-monitor?jobKey='' @ Encode env jobKey)]))))))))"

subsection \<open>An environment to run the controller in\<close>

text \<open>
  Two readers and three writers. The first map task advertises the name n1 for
  partition 0 and n2 for partition 1, the second n3 for partition 0; no name is
  advertised for partition 2. Names are marshalled with a comma after each, compression
  puts a z in front, and \<open>example_decode\<close> reads the three payloads that occur. The job
  asks for separate reduce items.
\<close>

definition example_json_Unmarshal :: "string \<Rightarrow> err + (string \<times> int) list" where
  "example_json_Unmarshal s =
     (if s = ''A'' then Inr [(''n1'', 0), (''n2'', 1)]
      else if s = ''B'' then Inr [(''n3'', 0)]
      else Inl (PlainError ''unexpected end of JSON input''))"

definition example_decode :: "string \<Rightarrow> string list option" where
  "example_decode s =
     (if s = ''zn1,n3,'' then Some [''n1'', ''n3'']
      else if s = ''zn2,'' then Some [''n2'']
      else if s = ''z'' then Some []
      else None)"

definition example_job :: JobInfo where
  "example_job =
     \<lparr>Stage = StageReducing, UrlPrefix = ''/mr'', WriterNames = [''w0'', ''w1'', ''w2''],
      SeparateReduceItems_job = True, JsonParameters = ''{}''\<rparr>"

definition example_map_task :: "string \<Rightarrow> JobTask" where
  "example_map_task result =
     \<lparr>Status = TaskStatusDone, Url = ''/mr/map'', ReadFrom = [], SeparateReduceItems = False,
      Type = TaskTypeMap, Info = [], Result = result\<rparr>"

definition example_env :: controller_env where
  "example_env =
     \<lparr>ReaderNames = ([''r0'', ''r1''], None),
      WriterNames_of = ([''w0'', ''w1'', ''w2''], None),
      createJob = Inr 5,
      AllocateIDs = (\<lambda>n. Inr 100),
      Encode = (\<lambda>k. FormatUint (nat k)),
      createTasks = (\<lambda>tasks. None),
      PostTask = (\<lambda>url. None),
      PostStatus = (\<lambda>url. None),
      waitForStageCompletion = Inr example_job,
      gatherTasks = Inr [example_map_task ''A'', example_map_task ''B''],
      json_Unmarshal = example_json_Unmarshal,
      json_Marshal = (\<lambda>names. concat (map (\<lambda>n. n @ '','') names)),
      zlib_compress = (\<lambda>b. ''z'' @ b),
      QueryEscape = (\<lambda>s. s)\<rparr>"

definition example_run_job :: MapReduceJob where
  "example_run_job =
     \<lparr>UrlPrefix_run = ''/mr'', OnCompleteUrl = [], RetryCount = 3,
      SeparateReduceItems_run = False, JobParameters = ''{}''\<rparr>"

section \<open>Dump followed by load\<close>

lemma parse_digits_append:
  "parse_digits n (xs @ ys) = (case parse_digits n xs of None \<Rightarrow> None | Some m \<Rightarrow> parse_digits m ys)"
  by (induction xs arbitrary: n) auto

lemma of_char_digit_char: "d < 10 \<Longrightarrow> (of_char (digit_char d) :: nat) = 48 + d"
  by (simp add: digit_char_def)

lemma parse_digits_digit: "d < 10 \<Longrightarrow> parse_digits n [digit_char d] = Some (n * 10 + d)"
  by (simp add: of_char_digit_char)

lemma parse_digits_FormatUint: "parse_digits 0 (FormatUint n) = Some n"
proof (induction n rule: FormatUint.induct)
  case (1 n)
  show ?case
  proof (cases "n < 10")
    case True
    then show ?thesis
      by (subst FormatUint.simps) (simp add: of_char_digit_char)
  next
    case False
    then have "parse_digits 0 (FormatUint (n div 10)) = Some (n div 10)"
      using "1.IH" by simp
    then show ?thesis
      using False
      by (subst FormatUint.simps) (simp add: parse_digits_append of_char_digit_char)
  qed
qed

lemma FormatUint_nonempty: "FormatUint n \<noteq> []"
  by (subst FormatUint.simps) simp

lemma hd_FormatUint_digit:
  "48 \<le> (of_char (hd (FormatUint n)) :: nat) \<and> (of_char (hd (FormatUint n)) :: nat) \<le> 57"
proof (induction n rule: FormatUint.induct)
  case (1 n)
  show ?case
  proof (cases "n < 10")
    case True
    then show ?thesis
      by (subst (1 2) FormatUint.simps) (simp add: of_char_digit_char)
  next
    case False
    then show ?thesis
      using "1.IH" FormatUint_nonempty [of "n div 10"]
      by (subst (1 2) FormatUint.simps) simp
  qed
qed

lemma hd_FormatUint_no_sign:
  "hd (FormatUint n) \<noteq> CHR ''-''" "hd (FormatUint n) \<noteq> CHR ''+''"
  using hd_FormatUint_digit [of n] by auto

lemma ParseUint_FormatUint: "ParseUint (FormatUint n) = Some n"
  by (simp add: ParseUint_def FormatUint_nonempty parse_digits_FormatUint)

lemma ParseInt_FormatInt: "ParseInt (FormatInt i) = Inr i"
proof (cases "sint i < 0")
  case True
  have lo: "- (2 ^ 63) \<le> sint i"
    using sint_ge [of i] by simp
  then have bound: "nat (- sint i) \<le> 2 ^ 63"
    by simp
  have "- (of_nat (nat (- sint i)) :: 64 word) = i"
    using True by simp
  then show ?thesis
    using True bound
    by (simp add: ParseInt_def FormatInt_def ParseUint_FormatUint)
next
  case False
  have hi: "sint i < 2 ^ 63"
    using sint_lt [of i] by simp
  then have bound: "nat (sint i) < 2 ^ 63"
    using False by simp
  have "(of_nat (nat (sint i)) :: 64 word) = i"
    using False by simp
  then show ?thesis
    using False bound hd_FormatUint_no_sign [of "nat (sint i)"]
    by (simp add: ParseInt_def FormatInt_def ParseUint_FormatUint FormatUint_nonempty)
qed

text \<open>
  Claim C10. For every string key, StringKeyHandler.KeyLoad of StringKeyHandler.KeyDump
  of the key gives the key back with a nil error, and for every int64 key
  Int64KeyHandler.KeyLoad of Int64KeyHandler.KeyDump of the key gives the key back with
  a nil error: neither dump panics, and load after dump is the identity.
\<close>

theorem KeyLoad_KeyDump_identity:
  "(case StringKeyHandler_KeyDump (GoString s) of
      Inl p \<Rightarrow> False
    | Inr b \<Rightarrow> StringKeyHandler_KeyLoad b = (Some (GoString s), None))
   \<and> (case Int64KeyHandler_KeyDump (GoInt64 i) of
      Inl p \<Rightarrow> False
    | Inr b \<Rightarrow> Int64KeyHandler_KeyLoad b = (Some (GoInt64 i), None))"
  by (simp add: StringKeyHandler_KeyDump_def StringKeyHandler_KeyLoad_def
      Int64KeyHandler_KeyDump_def Int64KeyHandler_KeyLoad_def ParseInt_FormatInt)

section \<open>Properties of the reduce task engine\<close>

lemmas projections = reduce_calls_def reduce_results_def complete_calls_def written_def removed_def
  complete_results_def

lemma open_shards_all_empty:
  "\<forall>name \<in> set shardNames. \<forall>u. fst (Iterator mr name u) = Inr [] \<Longrightarrow>
   fst (open_shards mr shardNames items u) = Inr items"
proof (induction shardNames arbitrary: u)
  case Nil
  then show ?case by simp
next
  case (Cons n ns)
  have "fst (Iterator mr n u) = Inr []"
    using Cons.prems by simp
  then obtain u1 where it: "Iterator mr n u = (Inr [], u1)"
    by (cases "Iterator mr n u") simp
  have "fst (open_shards mr ns items u1) = Inr items"
    using Cons by simp
  then show ?case by (simp add: it)
qed

lemma remove_shards_trace:
  "\<exists>u' new. remove_shards mr ns (u, tr) = (u', tr @ new)
     \<and> removed new = ns \<and> reduce_calls new = [] \<and> reduce_results new = []
     \<and> complete_calls new = [] \<and> complete_results new = [] \<and> written new = []"
proof (induction ns arbitrary: u tr)
  case Nil
  show ?case
    by (rule exI [of _ u], rule exI [of _ "[]"]) (simp add: projections)
next
  case (Cons n ns)
  obtain e u1 where r: "RemoveIntermediate mr n u = (e, u1)"
    by (cases "RemoveIntermediate mr n u")
  let ?evs = "EvRemoveIntermediate n # (case e of None \<Rightarrow> [] | Some e' \<Rightarrow> [EvErrorf e'])"
  obtain u' new where rest: "remove_shards mr ns (u1, tr @ ?evs) = (u', (tr @ ?evs) @ new)"
    and new: "removed new = ns" "reduce_calls new = []" "reduce_results new = []"
      "complete_calls new = []" "complete_results new = []" "written new = []"
    using Cons [of u1 "tr @ ?evs"] by blast
  have run: "remove_shards mr (n # ns) (u, tr) = (u', tr @ (?evs @ new))"
    using r rest by (cases e) simp_all
  have props: "removed (?evs @ new) = n # ns \<and> reduce_calls (?evs @ new) = []
      \<and> reduce_results (?evs @ new) = [] \<and> complete_calls (?evs @ new) = []
      \<and> complete_results (?evs @ new) = [] \<and> written (?evs @ new) = []"
    using new by (cases e) (simp_all add: projections)
  from run props show ?case
    by blast
qed


















text \<open>
  Claim C7. If the iterator of every input shard opens and yields no item, ReduceFunc
  calls RemoveIntermediate on every shard, in their order, never calls Reduce or
  ReduceComplete, hands nothing to the output writer, and returns nil.
\<close>

theorem ReduceFunc_all_shards_empty:
  assumes "\<forall>name \<in> set shardNames. \<forall>u. fst (Iterator mr name u) = Inr []"
  shows "fst (ReduceFunc mr merger_next writer shardNames u0) = None
     \<and> removed (snd (snd (ReduceFunc mr merger_next writer shardNames u0))) = shardNames
     \<and> reduce_calls (snd (snd (ReduceFunc mr merger_next writer shardNames u0))) = []
     \<and> complete_calls (snd (snd (ReduceFunc mr merger_next writer shardNames u0))) = []
     \<and> written (snd (snd (ReduceFunc mr merger_next writer shardNames u0))) = []"
proof -
  obtain u1 where op: "open_shards mr shardNames [] u0 = (Inr [], u1)"
    using open_shards_all_empty [OF assms, of "[]" u0]
    by (cases "open_shards mr shardNames [] u0") auto
  have rf: "ReduceFunc mr merger_next writer shardNames u0 = (None, remove_shards mr shardNames (u1, []))"
    by (simp add: ReduceFunc_def op)
  obtain u' new where "remove_shards mr shardNames (u1, []) = (u', [] @ new)"
    and "removed new = shardNames" "reduce_calls new = []" "complete_calls new = []" "written new = []"
    using remove_shards_trace [of mr shardNames u1 "[]"] by blast
  then show ?thesis
    by (simp add: rf)
qed

theorem ReduceFunc_all_shards_empty_witness:
  "fst (ReduceFunc (pipeline_of [] (\<lambda>key values. (None, None)) ([], None))
          single_shard_merger example_writer [''shard-0'', ''shard-1''] ()) = None
   \<and> removed (snd (snd (ReduceFunc (pipeline_of [] (\<lambda>key values. (None, None)) ([], None))
          single_shard_merger example_writer [''shard-0'', ''shard-1''] ())))
       = [''shard-0'', ''shard-1'']"
proof -
  have empty: "\<forall>name \<in> set [''shard-0'', ''shard-1''].
      \<forall>u. fst (Iterator (pipeline_of [] (\<lambda>key values. (None, None)) ([], None)) name u) = Inr []"
    by (simp add: pipeline_of_def)
  show ?thesis
    using ReduceFunc_all_shards_empty [OF empty, of single_shard_merger example_writer "()"]
    by simp
qed



text \<open>
  Claim C2, at concrete inputs on the reduce path. An error of Reduce on the last group
  is returned as it is, whether it is a plain error (not wrapped as tryAgainError) or a
  FatalError (not unwrapped), and so is an error of ReduceComplete; the same plain error
  of Reduce on a group inside the loop is wrapped as tryAgainError.
\<close>

theorem ReduceFunc_last_errors_returned_raw:
  "fst (ReduceFunc (pipeline_of [Inr \<lparr>Key = 1, Value = 10\<rparr>]
            (\<lambda>key values. (None, Some (PlainError ''boom''))) ([], None))
          single_shard_merger example_writer [''shard-0''] ())
     = Some (PlainError ''boom'')
   \<and> fst (ReduceFunc (pipeline_of [Inr \<lparr>Key = 1, Value = 10\<rparr>]
            (\<lambda>key values. (None, Some (FatalError (Some (PlainError ''boom''))))) ([], None))
          single_shard_merger example_writer [''shard-0''] ())
     = Some (FatalError (Some (PlainError ''boom'')))
   \<and> fst (ReduceFunc (pipeline_of [Inr \<lparr>Key = 1, Value = 10\<rparr>]
            (\<lambda>key values. (None, None)) ([], Some (PlainError ''boom'')))
          single_shard_merger example_writer [''shard-0''] ())
     = Some (PlainError ''boom'')
   \<and> fst (ReduceFunc (pipeline_of example_shard
            (\<lambda>key values. (None, Some (PlainError ''boom''))) ([], None))
          single_shard_merger example_writer [''shard-0''] ())
     = Some (tryAgainError (PlainError ''boom''))"
  by (simp add: ReduceFunc_def finish_reduce_def write_result_def pipeline_of_def
      example_writer_def example_shard_def single_shard_merger_def fatal_or_tryAgain_def)

section \<open>Properties of the map task engine\<close>

lemma merge_tries_all_fail:
  "try \<le> 5 \<Longrightarrow>
   merge_tries failing_mergeSpills sps try finalNames (u, tr)
     = (finalNames, (u, tr @ concat (map (\<lambda>t. [EvMergeSpills t, EvInfof]) [try..<5])))"
proof (induction "5 - try" arbitrary: "try" tr)
  case 0
  then show ?case by (simp add: merge_tries.simps)
next
  case (Suc n)
  then have lt: "try < 5" and n: "n = 5 - (try + 1)" and le: "try + 1 \<le> 5"
    by simp_all
  have "merge_tries failing_mergeSpills sps try finalNames (u, tr)
      = merge_tries failing_mergeSpills sps (try + 1) finalNames (u, tr @ [EvMergeSpills try, EvInfof])"
    using lt by (subst merge_tries.simps) (simp add: failing_mergeSpills_def)
  also have "\<dots> = (finalNames, (u, (tr @ [EvMergeSpills try, EvInfof])
      @ concat (map (\<lambda>t. [EvMergeSpills t, EvInfof]) [try + 1..<5])))"
    using Suc.hyps(1) [OF n le] .
  finally show ?case
    using lt by (simp add: upt_conv_Cons)
qed

text \<open>
  Claim C4, at a concrete input. The spill merge is tried five times, and when all five
  tries fail mapperFunc returns an empty map of names and a nil error, where the claim
  has the failure returned as a tryAgainError: the \<open>err\<close> that line 489 reads is not
  the error of mergeSpills.
\<close>

theorem mapperFunc_merge_failures_lost:
  "fst (mapperFunc example_mapper example_writeSpill failing_mergeSpills [(Some 7, None)] 2 ())
     = Inr (Some (\<lambda>name. None), None)
   \<and> merge_calls (snd (snd (mapperFunc example_mapper example_writeSpill failing_mergeSpills
        [(Some 7, None)] 2 ()))) = [0, 1, 2, 3, 4]"
  by (simp add: mapperFunc_def read_item_def spill_if_full_def after_read_def example_mapper_def
      example_writeSpill_def merge_tries_all_fail merge_calls_def upt_conv_Cons)


lemma spill_calls_append: "spill_calls (a @ b) = spill_calls a @ spill_calls b"
  by (simp add: spill_calls_def)



end
